theory Spec2Isabelle
  imports Complex_Main "HOL-Library.Sublist"
begin

section \<open>Python values\<close>

text \<open>
  The values the program handles: the cells of the uploaded table and the parsed JSON
  body of a response. A dictionary is an association list in insertion order, looked up
  with \<open>map_of\<close>. \<open>PyNaN\<close> is the float NaN that pandas puts into a missing cell.
  Of a number the program observes only whether it is zero.
\<close>

datatype pyval =
    PyNone
  | PyBool bool
  | PyInt int
  | PyFloat real
  | PyNaN
  | PyStr string
  | PyList "pyval list"
  | PyDict "(string \<times> pyval) list"

text \<open>Truth value testing, as \<^verbatim>\<open>if x:\<close> does it.\<close>

fun truthy :: "pyval \<Rightarrow> bool" where
  "truthy PyNone = False"
| "truthy (PyBool b) = b"
| "truthy (PyInt i) = (i \<noteq> 0)"
| "truthy (PyFloat x) = (x \<noteq> 0)"
| "truthy PyNaN = True"
| "truthy (PyStr s) = (s \<noteq> [])"
| "truthy (PyList xs) = (xs \<noteq> [])"
| "truthy (PyDict kvs) = (kvs \<noteq> [])"

text \<open>
  The exceptions that can occur. The first group are subclasses of
  \<^verbatim>\<open>requests.exceptions.RequestException\<close>; \<open>JSONDecodeError\<close> is
  \<^verbatim>\<open>requests.exceptions.JSONDecodeError\<close>, one of them. The others are not:
  \<open>ValueError\<close> covers the decoding error of the standard library, and
  \<open>RecursionError\<close> is what the JSON parser raises on a body nested too deeply.
\<close>

datatype exn =
    ConnectionError
  | Timeout
  | TooManyRedirects
  | MissingSchema
  | InvalidURL
  | HTTPError nat
  | JSONDecodeError
  | TypeError
  | AttributeError
  | KeyError
  | ValueError
  | ArgumentError
  | RuntimeError
  | RecursionError
  | ParserError

fun is_RequestException :: "exn \<Rightarrow> bool" where
  "is_RequestException ConnectionError = True"
| "is_RequestException Timeout = True"
| "is_RequestException TooManyRedirects = True"
| "is_RequestException MissingSchema = True"
| "is_RequestException InvalidURL = True"
| "is_RequestException (HTTPError status) = True"
| "is_RequestException JSONDecodeError = True"
| "is_RequestException e = False"

text \<open>\<^verbatim>\<open>key in x\<close> for a string key: keys of a dict, elements of a list, substrings
  of a string; any other operand is not iterable.\<close>

fun contains :: "string \<Rightarrow> pyval \<Rightarrow> exn + bool" where
  "contains k (PyDict kvs) = Inr (k \<in> set (map fst kvs))"
| "contains k (PyList xs) = Inr (PyStr k \<in> set xs)"
| "contains k (PyStr s) = Inr (sublist k s)"
| "contains k v = Inl TypeError"

text \<open>\<^verbatim>\<open>x[key]\<close> for a string key.\<close>

fun getitem :: "pyval \<Rightarrow> string \<Rightarrow> exn + pyval" where
  "getitem (PyDict kvs) k = (case map_of kvs k of None \<Rightarrow> Inl KeyError | Some v \<Rightarrow> Inr v)"
| "getitem v k = Inl TypeError"

text \<open>\<^verbatim>\<open>x.get(key, None)\<close>: only a dict has the method.\<close>

fun get_method :: "pyval \<Rightarrow> string \<Rightarrow> exn + pyval" where
  "get_method (PyDict kvs) k = Inr (case map_of kvs k of None \<Rightarrow> PyNone | Some v \<Rightarrow> v)"
| "get_method v k = Inl AttributeError"

section \<open>The table, the messages and the page\<close>

record row =
  ChEMBL_ID :: pyval
  URL :: pyval
  Target :: pyval

text \<open>A formatted message: the f-string's template, with the values it interpolates.\<close>

datatype message =
    FailedToFetch pyval exn
  | InvalidSMILES pyval
  | FailedToGenerate exn
  | ErrorReading exn
  | NoSMILES pyval
  | NoMoleculeData pyval

fun mentions :: "message \<Rightarrow> pyval list" where
  "mentions (FailedToFetch url e) = [url]"
| "mentions (InvalidSMILES smiles) = [smiles]"
| "mentions (FailedToGenerate e) = []"
| "mentions (ErrorReading e) = []"
| "mentions (NoSMILES chembl_id) = [chembl_id]"
| "mentions (NoMoleculeData chembl_id) = [chembl_id]"

text \<open>
  What the script puts on the page, in order. The download button carries the table
  whose CSV text (\<^verbatim>\<open>fingerprint_df.to_csv(index=False)\<close>, written by pandas) it offers.
\<close>

datatype event =
    st_title
  | st_file_uploader
  | st_write_uploaded "row list"
  | st_error message
  | st_warning message
  | st_write_heading
  | st_write_df "(pyval \<times> pyval \<times> int list) list"
  | st_download_button "(pyval \<times> pyval \<times> int list) list"

fun warnings :: "event list \<Rightarrow> message list" where
  "warnings [] = []"
| "warnings (st_warning m # es) = m # warnings es"
| "warnings (e # es) = warnings es"

fun errors :: "event list \<Rightarrow> message list" where
  "errors [] = []"
| "errors (st_error m # es) = m # errors es"
| "errors (e # es) = errors es"

fun is_message :: "event \<Rightarrow> bool" where
  "is_message (st_error m) = True"
| "is_message (st_warning m) = True"
| "is_message e = False"

section \<open>The libraries\<close>

text \<open>
  A response: its status, and what \<^verbatim>\<open>Response.json()\<close> does with its body, which is
  to return the parsed value or to raise. The method raises \<open>JSONDecodeError\<close> when
  the parser rejects the body; any other exception of the parser passes through it
  unchanged; and the parser accepts \<^verbatim>\<open>NaN\<close> and \<^verbatim>\<open>Infinity\<close>, which are not JSON,
  as floats.
\<close>

record response =
  status_code :: nat
  json :: "exn + pyval"

text \<open>
  What the program cannot decide by itself: the answer to the \<open>n\<close>-th HTTP request
  of the run (the network may answer the same URL differently each time), the SMILES
  parser, and the hashed atom environments of a molecule within a radius.
\<close>

record 'm env =
  requests_get :: "nat \<Rightarrow> pyval \<Rightarrow> exn + response"
  MolFromSmiles :: "pyval \<Rightarrow> exn + 'm option"
  atom_environments :: "'m \<Rightarrow> nat \<Rightarrow> exn + nat list"

text \<open>\<^verbatim>\<open>Response.raise_for_status()\<close> raises for the client and server error codes.\<close>

definition raise_for_status :: "response \<Rightarrow> exn + unit" where
  "raise_for_status r =
     (if 400 \<le> status_code r \<and> status_code r < 600 then Inl (HTTPError (status_code r))
      else Inr ())"

text \<open>
  Modelled from the spec: the fingerprint library is not part of the repository. The
  hashes of the atom environments are folded into a vector of \<open>nBits\<close> bits, bit
  \<open>h mod nBits\<close> set for every hash \<open>h\<close>.
\<close>

definition fold_bits :: "nat \<Rightarrow> nat list \<Rightarrow> bool list" where
  "fold_bits nBits hs = map (\<lambda>i. i \<in> set (map (\<lambda>h. h mod nBits) hs)) [0..<nBits]"

definition GetMorganFingerprintAsBitVect ::
    "'m env \<Rightarrow> 'm \<Rightarrow> nat \<Rightarrow> nat \<Rightarrow> exn + bool list" where
  "GetMorganFingerprintAsBitVect env mol radius nBits =
     (case atom_environments env mol radius of
        Inl e \<Rightarrow> Inl e
      | Inr hs \<Rightarrow> Inr (fold_bits nBits hs))"

text \<open>\<^verbatim>\<open>list(fp)\<close> of a bit vector.\<close>

definition list_of :: "bool list \<Rightarrow> int list" where
  "list_of fp = map (\<lambda>b. if b then 1 else 0) fp"

text \<open>
  \<^verbatim>\<open>pd.read_csv(f, header=None, names=[...three names...])\<close> on the lines of the file
  as the tokenizer yields them (blank lines skipped, one list of fields per line).
  Modelled from the library's behaviour: a file without lines gives a table without
  rows; the first line fixes the width, at least three; a later line with more fields
  raises; shorter lines
  are filled with NaN; with more than three columns the leading ones become the index
  and the last three get the names. The second equation of \<open>named\<close> is never reached
  from \<open>read_csv\<close>, which hands it at least three cells.
\<close>

type_synonym csv_file = "pyval list list"

fun named :: "pyval list \<Rightarrow> row" where
  "named (a # b # c # others) = \<lparr>ChEMBL_ID = a, URL = b, Target = c\<rparr>"
| "named cells = \<lparr>ChEMBL_ID = PyNaN, URL = PyNaN, Target = PyNaN\<rparr>"

definition read_csv :: "csv_file \<Rightarrow> exn + row list" where
  "read_csv lines =
     (case lines of
        [] \<Rightarrow> Inr []
      | first # rest \<Rightarrow>
          (let width = max (length first) 3 in
           if list_ex (\<lambda>l. width < length l) rest then Inl ParserError
           else Inr (map (\<lambda>l. named (drop (width - 3) (l @ replicate (width - length l) PyNaN)))
                      lines)))"

section \<open>The program\<close>

subsection \<open>\<^verbatim>\<open>fetch_molecule_json\<close>\<close>

text \<open>
  The result is the messages written and either the value returned (\<open>PyNone\<close> after a
  caught \<^verbatim>\<open>RequestException\<close>) or the exception that escapes.
\<close>

definition fetch_molecule_json :: "'m env \<Rightarrow> nat \<Rightarrow> pyval \<Rightarrow> event list \<times> (exn + pyval)" where
  "fetch_molecule_json env n url =
     (case (case requests_get env n url of
              Inl e \<Rightarrow> Inl e
            | Inr response \<Rightarrow>
                (case raise_for_status response of
                   Inl e \<Rightarrow> Inl e
                 | Inr u \<Rightarrow> json response)) of
        Inr v \<Rightarrow> ([], Inr v)
      | Inl e \<Rightarrow>
          if is_RequestException e then ([st_error (FailedToFetch url e)], Inr PyNone)
          else ([], Inl e))"

subsection \<open>\<^verbatim>\<open>generate_fingerprint\<close>\<close>

text \<open>
  Every exception is caught here; \<open>None\<close> is the failure value. The parser returns
  \<open>None\<close> for a string it rejects and raises for an argument that is not a string; a
  molecule object is always truthy, so \<^verbatim>\<open>if mol:\<close> tests for \<open>None\<close> only.
\<close>

definition generate_fingerprint :: "'m env \<Rightarrow> pyval \<Rightarrow> event list \<times> bool list option" where
  "generate_fingerprint env smiles =
     (case (case MolFromSmiles env smiles of
              Inl e \<Rightarrow> Inl e
            | Inr None \<Rightarrow> Inr ([st_error (InvalidSMILES smiles)], None)
            | Inr (Some mol) \<Rightarrow>
                (case GetMorganFingerprintAsBitVect env mol 2 2048 of
                   Inl e \<Rightarrow> Inl e
                 | Inr fp \<Rightarrow> Inr ([], Some fp))) of
        Inr r \<Rightarrow> r
      | Inl e \<Rightarrow> ([st_error (FailedToGenerate e)], None))"

subsection \<open>\<^verbatim>\<open>main\<close>\<close>

record state =
  page :: "event list"
  fingerprints :: "(pyval \<times> pyval \<times> bool list option) list"
  requests_made :: nat

definition say :: "event \<Rightarrow> state \<Rightarrow> state" where
  "say e st = st\<lparr>page := page st @ [e]\<rparr>"

text \<open>
  One pass of the \<^verbatim>\<open>for\<close> loop. The first component is the exception that escapes
  the loop body, if one does.
\<close>

definition loop_body :: "'m env \<Rightarrow> row \<Rightarrow> state \<Rightarrow> exn option \<times> state" where
  "loop_body env row st =
     (let chembl_id = ChEMBL_ID row;
          url = URL row;
          (out, fetched) = fetch_molecule_json env (requests_made st) url;
          st1 = st\<lparr>page := page st @ out, requests_made := Suc (requests_made st)\<rparr>
      in case fetched of
           Inl e \<Rightarrow> (Some e, st1)
         | Inr molecule_data \<Rightarrow>
             if truthy molecule_data then
               (case contains ''molecule_structures'' molecule_data of
                  Inl e \<Rightarrow> (Some e, st1)
                | Inr False \<Rightarrow> (None, say (st_warning (NoMoleculeData chembl_id)) st1)
                | Inr True \<Rightarrow>
                    (case getitem molecule_data ''molecule_structures'' of
                       Inl e \<Rightarrow> (Some e, st1)
                     | Inr structures \<Rightarrow>
                         (case get_method structures ''canonical_smiles'' of
                            Inl e \<Rightarrow> (Some e, st1)
                          | Inr smiles \<Rightarrow>
                              if truthy smiles then
                                (let (out2, fingerprint) = generate_fingerprint env smiles
                                 in (None, st1\<lparr>page := page st1 @ out2,
                                       fingerprints := fingerprints st1 @
                                         [(chembl_id, smiles, fingerprint)]\<rparr>))
                              else (None, say (st_warning (NoSMILES chembl_id)) st1))))
             else (None, say (st_warning (NoMoleculeData chembl_id)) st1))"

fun for_rows :: "'m env \<Rightarrow> row list \<Rightarrow> state \<Rightarrow> exn option \<times> state" where
  "for_rows env [] st = (None, st)"
| "for_rows env (row # rows) st =
     (case loop_body env row st of
        (Some e, st') \<Rightarrow> (Some e, st')
      | (None, st') \<Rightarrow> for_rows env rows st')"

text \<open>The rows of the result table: the entries whose fingerprint is not \<open>None\<close>.\<close>

fun fingerprint_df ::
    "(pyval \<times> pyval \<times> bool list option) list \<Rightarrow> (pyval \<times> pyval \<times> int list) list" where
  "fingerprint_df [] = []"
| "fingerprint_df ((chembl_id, smiles, fp) # rest) =
     (case fp of
        None \<Rightarrow> fingerprint_df rest
      | Some bv \<Rightarrow> (chembl_id, smiles, list_of bv) # fingerprint_df rest)"

definition display :: "state \<Rightarrow> state" where
  "display st =
     (if fingerprints st \<noteq> [] then
        (let df = fingerprint_df (fingerprints st)
         in st\<lparr>page := page st @ [st_write_heading, st_write_df df, st_download_button df]\<rparr>)
      else st)"

definition start :: state where
  "start = \<lparr>page = [st_title, st_file_uploader], fingerprints = [], requests_made = 0\<rparr>"

definition main :: "'m env \<Rightarrow> csv_file option \<Rightarrow> exn option \<times> state" where
  "main env uploaded_file =
     (case uploaded_file of
        None \<Rightarrow> (None, start)
      | Some f \<Rightarrow>
          (case read_csv f of
             Inl e \<Rightarrow> (None, say (st_error (ErrorReading e)) start)
           | Inr data \<Rightarrow>
               (case for_rows env data (say (st_write_uploaded data) start) of
                  (Some e, st) \<Rightarrow> (Some e, st)
                | (None, st) \<Rightarrow> (None, display st))))"

subsection \<open>What one row adds\<close>

text \<open>
  The entries that the loop body appends for the row that makes the \<open>n\<close>-th request,
  read off a run of the body on an empty accumulator.
\<close>

definition blank :: "nat \<Rightarrow> state" where
  "blank n = \<lparr>page = [], fingerprints = [], requests_made = n\<rparr>"

definition contribution ::
    "'m env \<Rightarrow> nat \<Rightarrow> row \<Rightarrow> (pyval \<times> pyval \<times> bool list option) list" where
  "contribution env n row = fingerprints (snd (loop_body env row (blank n)))"

subsection \<open>A sample world\<close>

text \<open>
  Concrete answers for the scenarios of the specification: a molecule with the SMILES
  \<^verbatim>\<open>CCO\<close>, a 404, a body that the JSON parser rejects, a molecule without structures
  (the remote source sends \<^verbatim>\<open>"molecule_structures": null\<close> for these), a null SMILES,
  a SMILES the parser rejects, a status 300 with a JSON body, the body \<^verbatim>\<open>NaN\<close>, and a
  body of a hundred thousand opening brackets. A molecule is represented by its SMILES.
\<close>

definition ethanol :: pyval where
  "ethanol = PyDict [(''molecule_structures'', PyDict [(''canonical_smiles'', PyStr ''CCO'')])]"

definition world :: "string env" where
  "world =
     \<lparr>requests_get = (\<lambda>n url.
        if url = PyStr ''http://x/ok'' then Inr \<lparr>status_code = 200, json = Inr ethanol\<rparr>
        else if url = PyStr ''http://x/404'' then Inr \<lparr>status_code = 404, json = Inl JSONDecodeError\<rparr>
        else if url = PyStr ''http://x/html'' then Inr \<lparr>status_code = 200, json = Inl JSONDecodeError\<rparr>
        else if url = PyStr ''http://x/biologic'' then
          Inr \<lparr>status_code = 200, json = Inr (PyDict [(''molecule_structures'', PyNone)])\<rparr>
        else if url = PyStr ''http://x/nosmiles'' then
          Inr \<lparr>status_code = 200, json = Inr (PyDict [(''molecule_structures'',
            PyDict [(''canonical_smiles'', PyNone)])])\<rparr>
        else if url = PyStr ''http://x/bad'' then
          Inr \<lparr>status_code = 200, json = Inr (PyDict [(''molecule_structures'',
            PyDict [(''canonical_smiles'', PyStr ''not_a_valid_smiles'')])])\<rparr>
        else if url = PyStr ''http://x/300'' then Inr \<lparr>status_code = 300, json = Inr ethanol\<rparr>
        else if url = PyStr ''http://x/nan'' then Inr \<lparr>status_code = 200, json = Inr PyNaN\<rparr>
        else if url = PyStr ''http://x/nested'' then
          Inr \<lparr>status_code = 200, json = Inl RecursionError\<rparr>
        else Inl ConnectionError),
      MolFromSmiles = (\<lambda>smiles.
        case smiles of
          PyStr s \<Rightarrow> if s = ''CCO'' then Inr (Some s) else Inr None
        | _ \<Rightarrow> Inl ArgumentError),
      atom_environments = (\<lambda>mol radius. Inr [80, 222, 807, 1057, 2245])\<rparr>"

definition table_row :: "string \<Rightarrow> string \<Rightarrow> pyval list" where
  "table_row chembl_id url = [PyStr chembl_id, PyStr url, PyStr ''X'']"

text \<open>A table with one row of each kind, and the bits of the sample molecule.\<close>

definition sample_table :: csv_file where
  "sample_table =
     [table_row ''CHEMBL4'' ''http://x/bad'', table_row ''CHEMBL1'' ''http://x/ok'',
      table_row ''CHEMBL2'' ''http://x/404'', table_row ''CHEMBL7'' ''http://x/300'']"

definition ethanol_bits :: "bool list" where
  "ethanol_bits = fold_bits 2048 [80, 222, 807, 1057, 2245]"

subsection \<open>Answers the loop survives\<close>

text \<open>
  A JSON value the loop body handles without an exception: a falsy value, or an object
  whose \<^verbatim>\<open>molecule_structures\<close>, when present, is an object.
\<close>

fun well_shaped :: "pyval \<Rightarrow> bool" where
  "well_shaped (PyDict kvs) =
     (case map_of kvs ''molecule_structures'' of
        None \<Rightarrow> True
      | Some (PyDict ms) \<Rightarrow> True
      | Some v \<Rightarrow> False)"
| "well_shaped v = (\<not> truthy v)"

text \<open>An answer to a request that the loop body survives.\<close>

definition answers_well :: "exn + response \<Rightarrow> bool" where
  "answers_well a =
     (case a of
        Inl e \<Rightarrow> is_RequestException e
      | Inr response \<Rightarrow>
          (if 400 \<le> status_code response \<and> status_code response < 600 then True
           else case json response of
                  Inl e \<Rightarrow> is_RequestException e
                | Inr v \<Rightarrow> well_shaped v))"

text \<open>The sample world, with the three answers the loop does not survive timing out.\<close>

definition quiet_world :: "string env" where
  "quiet_world =
     world\<lparr>requests_get := (\<lambda>n url.
        if url = PyStr ''http://x/biologic'' \<or> url = PyStr ''http://x/nan'' \<or>
           url = PyStr ''http://x/nested''
        then Inl Timeout else requests_get world n url)\<rparr>"

section \<open>Properties\<close>

subsection \<open>The library calls\<close>

lemma length_fold_bits: "length (fold_bits nBits hs) = nBits"
  by (simp add: fold_bits_def)

lemma generate_fingerprint_length:
  "generate_fingerprint env smiles = (out, Some bv) \<Longrightarrow> length bv = 2048"
  by (auto simp: generate_fingerprint_def GetMorganFingerprintAsBitVect_def length_fold_bits
      split: sum.splits option.splits)

lemma generate_fingerprint_messages:
  "generate_fingerprint env smiles = (out, fp) \<Longrightarrow>
     (case fp of None \<Rightarrow> \<exists>m. out = [st_error m] | Some bv \<Rightarrow> out = [])"
  by (auto simp: generate_fingerprint_def split: sum.splits option.splits)

lemma fetch_cases:
  "(\<exists>v. fetch_molecule_json env n url = ([], Inr v)) \<or>
   (\<exists>e. is_RequestException e \<and>
      fetch_molecule_json env n url = ([st_error (FailedToFetch url e)], Inr PyNone)) \<or>
   (\<exists>e. \<not> is_RequestException e \<and> fetch_molecule_json env n url = ([], Inl e))"
  by (auto simp: fetch_molecule_json_def split: sum.splits)

subsection \<open>One pass of the loop\<close>

text \<open>The body reads nothing of the state but the number of requests made.\<close>

lemma loop_body_frame:
  "loop_body env row st =
     (case loop_body env row (blank (requests_made st)) of
        (r, d) \<Rightarrow> (r, \<lparr>page = page st @ page d, fingerprints = fingerprints st @ fingerprints d,
                      requests_made = requests_made d\<rparr>))"
  by (cases st)
    (auto simp: loop_body_def blank_def say_def Let_def split: prod.splits sum.splits bool.splits)

lemma loop_body_requests:
  "loop_body env row st = (r, st') \<Longrightarrow> requests_made st' = Suc (requests_made st)"
  by (auto simp: loop_body_def say_def Let_def split: prod.splits sum.splits bool.splits if_splits)

lemma loop_body_fingerprints:
  "loop_body env row st = (r, st') \<Longrightarrow>
     fingerprints st' = fingerprints st @ contribution env (requests_made st) row"
  by (subst (asm) loop_body_frame) (auto simp: contribution_def split: prod.splits)

lemma contribution_cases:
  "contribution env n row = [] \<or>
   (\<exists>smiles. truthy smiles \<and>
      contribution env n row = [(ChEMBL_ID row, smiles, snd (generate_fingerprint env smiles))])"
  by (auto simp: contribution_def blank_def loop_body_def say_def Let_def
      split: prod.splits sum.splits bool.splits)

lemma loop_body_page:
  "loop_body env row st = (r, st') \<Longrightarrow> \<exists>msgs. page st' = page st @ msgs \<and> list_all is_message msgs"
  by (auto simp: loop_body_def say_def Let_def fetch_molecule_json_def generate_fingerprint_def
      split: prod.splits sum.splits bool.splits if_splits option.splits)

lemma loop_body_appends:
  assumes "loop_body env row st = (r, st')"
  shows "fingerprints st' = fingerprints st \<or>
    (\<exists>data structures smiles.
       fetch_molecule_json env (requests_made st) (URL row) = ([], Inr data) \<and>
       truthy data \<and>
       contains ''molecule_structures'' data = Inr True \<and>
       getitem data ''molecule_structures'' = Inr structures \<and>
       get_method structures ''canonical_smiles'' = Inr smiles \<and>
       truthy smiles \<and> r = None \<and>
       fingerprints st' =
         fingerprints st @ [(ChEMBL_ID row, smiles, snd (generate_fingerprint env smiles))] \<and>
       page st' = page st @ fst (generate_fingerprint env smiles))"
proof -
  consider (ok) v where "fetch_molecule_json env (requests_made st) (URL row) = ([], Inr v)"
    | (caught) e where
        "fetch_molecule_json env (requests_made st) (URL row) =
           ([st_error (FailedToFetch (URL row) e)], Inr PyNone)"
    | (escapes) e where "fetch_molecule_json env (requests_made st) (URL row) = ([], Inl e)"
    using fetch_cases [of env "requests_made st" "URL row"] by blast
  then show ?thesis
  proof cases
    case ok
    with assms show ?thesis
      by (auto simp: loop_body_def say_def Let_def split: prod.splits sum.splits bool.splits if_splits)
  next
    case caught
    with assms show ?thesis
      by (auto simp: loop_body_def say_def Let_def)
  next
    case escapes
    with assms show ?thesis
      by (auto simp: loop_body_def say_def Let_def)
  qed
qed

lemma loop_body_reaches_generator:
  assumes "loop_body env row st = (r, st')"
    and "fetch_molecule_json env (requests_made st) (URL row) = (out, Inr data)"
    and "truthy data"
    and "contains ''molecule_structures'' data = Inr True"
    and "getitem data ''molecule_structures'' = Inr structures"
    and "get_method structures ''canonical_smiles'' = Inr smiles"
    and "truthy smiles"
  shows "r = None \<and>
    fingerprints st' =
      fingerprints st @ [(ChEMBL_ID row, smiles, snd (generate_fingerprint env smiles))]"
  using assms
  by (cases "generate_fingerprint env smiles") (auto simp: loop_body_def Let_def)

subsection \<open>The whole loop\<close>

lemma for_rows_fingerprints:
  "for_rows env rows st = (None, st') \<Longrightarrow>
     fingerprints st' = fingerprints st @
       concat (map (\<lambda>(n, row). contribution env n row) (List.enumerate (requests_made st) rows))"
proof (induction rows arbitrary: st)
  case Nil
  then show ?case by simp
next
  case (Cons row rows)
  obtain r st1 where step: "loop_body env row st = (r, st1)"
    by (cases "loop_body env row st")
  with Cons.prems have r: "r = None" and rest: "for_rows env rows st1 = (None, st')"
    by (auto split: option.splits)
  from Cons.IH [OF rest] loop_body_fingerprints [OF step] loop_body_requests [OF step]
  show ?case by simp
qed

lemma for_rows_requests:
  "for_rows env rows st = (r, st') \<Longrightarrow> requests_made st \<le> requests_made st'"
proof (induction rows arbitrary: st)
  case Nil
  then show ?case by simp
next
  case (Cons row rows)
  obtain r1 st1 where step: "loop_body env row st = (r1, st1)"
    by (cases "loop_body env row st")
  note one = loop_body_requests [OF step]
  show ?case
  proof (cases r1)
    case None
    with Cons.prems step have "for_rows env rows st1 = (r, st')" by simp
    from Cons.IH [OF this] one show ?thesis by simp
  next
    case (Some e)
    with Cons.prems step have "st' = st1" by simp
    with one show ?thesis by simp
  qed
qed

lemma for_rows_first_request:
  "for_rows env (row # rows) st = (r, st') \<Longrightarrow> requests_made st < requests_made st'"
proof -
  assume run: "for_rows env (row # rows) st = (r, st')"
  obtain r1 st1 where step: "loop_body env row st = (r1, st1)"
    by (cases "loop_body env row st")
  note one = loop_body_requests [OF step]
  show ?thesis
  proof (cases r1)
    case None
    with run step have "for_rows env rows st1 = (r, st')" by simp
    from for_rows_requests [OF this] one show ?thesis by simp
  next
    case (Some e)
    with run step have "st' = st1" by simp
    with one show ?thesis by simp
  qed
qed

lemma for_rows_page:
  "for_rows env rows st = (r, st') \<Longrightarrow> \<exists>msgs. page st' = page st @ msgs \<and> list_all is_message msgs"
proof (induction rows arbitrary: st)
  case Nil
  then show ?case by simp
next
  case (Cons row rows)
  obtain r1 st1 where step: "loop_body env row st = (r1, st1)"
    by (cases "loop_body env row st")
  from loop_body_page [OF step] obtain m1 where m1: "page st1 = page st @ m1" "list_all is_message m1"
    by blast
  show ?case
  proof (cases r1)
    case None
    with Cons.prems step have "for_rows env rows st1 = (r, st')" by simp
    from Cons.IH [OF this] obtain m2 where "page st' = page st1 @ m2" "list_all is_message m2"
      by blast
    with m1 have "page st' = page st @ (m1 @ m2) \<and> list_all is_message (m1 @ m2)" by simp
    then show ?thesis by blast
  next
    case (Some e)
    with Cons.prems step have "st' = st1" by simp
    with m1 show ?thesis by blast
  qed
qed

lemma for_rows_accumulated:
  "for_rows env rows st = (r, st') \<Longrightarrow>
     \<exists>new. fingerprints st' = fingerprints st @ new \<and>
       list_all (\<lambda>(cid, s, fp). truthy s \<and> fp = snd (generate_fingerprint env s)) new"
proof (induction rows arbitrary: st)
  case Nil
  then show ?case by simp
next
  case (Cons row rows)
  obtain r1 st1 where step: "loop_body env row st = (r1, st1)"
    by (cases "loop_body env row st")
  have one: "list_all (\<lambda>(cid, s, fp). truthy s \<and> fp = snd (generate_fingerprint env s))
      (contribution env (requests_made st) row)"
    using contribution_cases [of env "requests_made st" row] by auto
  note fp1 = loop_body_fingerprints [OF step]
  show ?case
  proof (cases r1)
    case None
    with Cons.prems step have "for_rows env rows st1 = (r, st')" by simp
    from Cons.IH [OF this] obtain new where
      "fingerprints st' = fingerprints st1 @ new"
      "list_all (\<lambda>(cid, s, fp). truthy s \<and> fp = snd (generate_fingerprint env s)) new"
      by blast
    with fp1 one have "fingerprints st' = fingerprints st @ (contribution env (requests_made st) row @ new) \<and>
       list_all (\<lambda>(cid, s, fp). truthy s \<and> fp = snd (generate_fingerprint env s))
         (contribution env (requests_made st) row @ new)" by simp
    then show ?thesis by blast
  next
    case (Some e)
    with Cons.prems step have "st' = st1" by simp
    with fp1 one show ?thesis by blast
  qed
qed

subsection \<open>The result table\<close>

lemma fingerprint_df_mem:
  "(cid, s, bits) \<in> set (fingerprint_df fps) \<Longrightarrow> \<exists>bv. (cid, s, Some bv) \<in> set fps \<and> bits = list_of bv"
  by (induction fps rule: fingerprint_df.induct) (auto split: option.splits)

lemma fingerprint_df_append:
  "fingerprint_df (xs @ ys) = fingerprint_df xs @ fingerprint_df ys"
  by (induction xs rule: fingerprint_df.induct) (auto split: option.splits)

lemma fingerprint_df_concat:
  "fingerprint_df (concat xss) = concat (map fingerprint_df xss)"
  by (induction xss) (simp_all add: fingerprint_df_append)

lemma length_fingerprint_df:
  "length (fingerprint_df fps) = length (filter (\<lambda>(cid, s, fp). fp \<noteq> None) fps)"
  by (induction fps rule: fingerprint_df.induct) (auto split: option.splits)

subsection \<open>The whole run\<close>

lemma main_accumulated:
  "list_all (\<lambda>(cid, s, fp). truthy s \<and> fp = snd (generate_fingerprint env s))
     (fingerprints (snd (main env uploaded_file)))"
proof (cases uploaded_file)
  case None
  then show ?thesis by (simp add: main_def start_def)
next
  case (Some f)
  show ?thesis
  proof (cases "read_csv f")
    case (Inl e)
    with Some show ?thesis by (simp add: main_def start_def say_def)
  next
    case (Inr data)
    obtain r st where run: "for_rows env data (say (st_write_uploaded data) start) = (r, st)"
      by (cases "for_rows env data (say (st_write_uploaded data) start)")
    from for_rows_accumulated [OF run] have
      "list_all (\<lambda>(cid, s, fp). truthy s \<and> fp = snd (generate_fingerprint env s)) (fingerprints st)"
      by (auto simp: say_def start_def)
    moreover have "fingerprints (snd (main env uploaded_file)) = fingerprints st"
      using Some Inr run by (cases r) (simp_all add: main_def display_def Let_def)
    ultimately show ?thesis by simp
  qed
qed

lemma fingerprints_display: "fingerprints (display st) = fingerprints st"
  by (simp add: display_def Let_def)

lemma main_displayed:
  assumes "st_write_df df \<in> set (page (snd (main env uploaded_file))) \<or>
    st_download_button df \<in> set (page (snd (main env uploaded_file)))"
  shows "\<exists>f data st. uploaded_file = Some f \<and> read_csv f = Inr data \<and>
    for_rows env data (say (st_write_uploaded data) start) = (None, st) \<and>
    fingerprints st \<noteq> [] \<and> main env uploaded_file = (None, display st) \<and>
    df = fingerprint_df (fingerprints st)"
proof (cases uploaded_file)
  case None
  with assms show ?thesis by (auto simp: main_def start_def)
next
  case (Some f)
  show ?thesis
  proof (cases "read_csv f")
    case (Inl e)
    with Some assms show ?thesis by (auto simp: main_def start_def say_def)
  next
    case (Inr data)
    obtain r st where run: "for_rows env data (say (st_write_uploaded data) start) = (r, st)"
      by (cases "for_rows env data (say (st_write_uploaded data) start)")
    from for_rows_page [OF run] obtain msgs where
      msgs: "page st = page (say (st_write_uploaded data) start) @ msgs" "list_all is_message msgs"
      by blast
    have quiet: "st_write_df df \<notin> set (page st)" "st_download_button df \<notin> set (page st)"
      using msgs by (auto simp: say_def start_def list_all_iff)
    show ?thesis
    proof (cases r)
      case None
      with Some Inr run have m: "main env uploaded_file = (None, display st)"
        by (simp add: main_def)
      with assms quiet have "fingerprints st \<noteq> [] \<and> df = fingerprint_df (fingerprints st)"
        by (auto simp: display_def Let_def split: if_splits)
      with Some Inr run None m show ?thesis by simp
    next
      case (Some e)
      with \<open>uploaded_file = Some f\<close> Inr run have "main env uploaded_file = (Some e, st)"
        by (simp add: main_def)
      with assms quiet show ?thesis by simp
    qed
  qed
qed

lemma subseq_concat_map:
  assumes "\<And>p. p \<in> set ps \<Longrightarrow> g p = [] \<or> (\<exists>x. g p = [x] \<and> h x = k p)"
  shows "subseq (map h (concat (map g ps))) (map k ps)"
  using assms
proof (induction ps)
  case Nil
  then show ?case by simp
next
  case (Cons p ps)
  then have IH: "subseq (map h (concat (map g ps))) (map k ps)"
    by simp
  from Cons.prems [of p] consider "g p = []" | x where "g p = [x]" "h x = k p"
    by auto
  then show ?case
  proof cases
    case 1
    with IH show ?thesis by (simp add: list_emb_Cons)
  next
    case 2
    with IH show ?thesis by simp
  qed
qed

subsection \<open>The rows the loop handles\<close>

lemma contains_dict:
  "contains k (PyDict kvs) = Inr (map_of kvs k \<noteq> None)"
  by (simp add: map_of_eq_None_iff)

lemma no_smiles_row_is_warned_and_skipped:
  assumes "requests_get env (requests_made st) (URL row) = Inr response"
    and "\<not> (400 \<le> status_code response \<and> status_code response < 600)"
    and "json response = Inr (PyDict kvs)"
    and "map_of kvs ''molecule_structures'' = Some (PyDict ms)"
    and "map_of ms ''canonical_smiles'' = None \<or> map_of ms ''canonical_smiles'' = Some PyNone"
  shows "loop_body env row st =
    (None, st\<lparr>page := page st @ [st_warning (NoSMILES (ChEMBL_ID row))],
              requests_made := Suc (requests_made st)\<rparr>)"
proof -
  have fetch: "fetch_molecule_json env (requests_made st) (URL row) = ([], Inr (PyDict kvs))"
    using assms(1-3) by (simp add: fetch_molecule_json_def raise_for_status_def)
  from assms(4) have "kvs \<noteq> []" by auto
  with fetch assms(4,5) show ?thesis
    by (cases st) (auto simp: loop_body_def say_def Let_def contains_dict simp del: contains.simps)
qed

lemma row_without_structures_is_warned_and_skipped:
  assumes "requests_get env (requests_made st) (URL row) = Inr response"
    and "\<not> (400 \<le> status_code response \<and> status_code response < 600)"
    and "json response = Inr (PyDict kvs)"
    and "map_of kvs ''molecule_structures'' = None"
  shows "loop_body env row st =
    (None, st\<lparr>page := page st @ [st_warning (NoMoleculeData (ChEMBL_ID row))],
              requests_made := Suc (requests_made st)\<rparr>)"
proof -
  have fetch: "fetch_molecule_json env (requests_made st) (URL row) = ([], Inr (PyDict kvs))"
    using assms(1-3) by (simp add: fetch_molecule_json_def raise_for_status_def)
  with assms(4) show ?thesis
    by (cases st) (auto simp: loop_body_def say_def Let_def contains_dict simp del: contains.simps)
qed

lemma successful_row_is_appended:
  assumes "requests_get env (requests_made st) (URL row) = Inr response"
    and "\<not> (400 \<le> status_code response \<and> status_code response < 600)"
    and "json response = Inr (PyDict kvs)"
    and "map_of kvs ''molecule_structures'' = Some (PyDict ms)"
    and "map_of ms ''canonical_smiles'' = Some smiles"
    and "truthy smiles"
    and "MolFromSmiles env smiles = Inr (Some mol)"
    and "atom_environments env mol 2 = Inr hs"
  shows "loop_body env row st =
    (None, st\<lparr>fingerprints := fingerprints st @ [(ChEMBL_ID row, smiles, Some (fold_bits 2048 hs))],
              requests_made := Suc (requests_made st)\<rparr>)"
proof -
  have fetch: "fetch_molecule_json env (requests_made st) (URL row) = ([], Inr (PyDict kvs))"
    using assms(1-3) by (simp add: fetch_molecule_json_def raise_for_status_def)
  have gen: "generate_fingerprint env smiles = ([], Some (fold_bits 2048 hs))"
    using assms(7,8) by (simp add: generate_fingerprint_def GetMorganFingerprintAsBitVect_def)
  from assms(4) have "kvs \<noteq> []" by auto
  with fetch gen assms(4-6) show ?thesis
    by (cases st) (auto simp: loop_body_def say_def Let_def contains_dict simp del: contains.simps)
qed

lemma rejected_body_is_not_fatal:
  assumes "requests_get env (requests_made st) (URL row) = Inr response"
    and "\<not> (400 \<le> status_code response \<and> status_code response < 600)"
    and "json response = Inl e"
    and "is_RequestException e"
  shows "fetch_molecule_json env (requests_made st) (URL row) =
      ([st_error (FailedToFetch (URL row) e)], Inr PyNone) \<and>
    for_rows env (row # rows) st =
      for_rows env rows
        (st\<lparr>page := page st @ [st_error (FailedToFetch (URL row) e),
                                 st_warning (NoMoleculeData (ChEMBL_ID row))],
             requests_made := Suc (requests_made st)\<rparr>)"
proof -
  have fetch: "fetch_molecule_json env (requests_made st) (URL row) =
      ([st_error (FailedToFetch (URL row) e)], Inr PyNone)"
    using assms by (auto simp: fetch_molecule_json_def raise_for_status_def)
  then have "loop_body env row st =
      (None, st\<lparr>page := page st @ [st_error (FailedToFetch (URL row) e),
                                    st_warning (NoMoleculeData (ChEMBL_ID row))],
                requests_made := Suc (requests_made st)\<rparr>)"
    by (cases st) (simp add: loop_body_def say_def Let_def)
  with fetch show ?thesis by simp
qed

lemma escaping_parser_exception_is_fatal:
  assumes "requests_get env (requests_made st) (URL row) = Inr response"
    and "\<not> (400 \<le> status_code response \<and> status_code response < 600)"
    and "json response = Inl e"
    and "\<not> is_RequestException e"
  shows "for_rows env (row # rows) st =
    (Some e, st\<lparr>requests_made := Suc (requests_made st)\<rparr>)"
proof -
  have "fetch_molecule_json env (requests_made st) (URL row) = ([], Inl e)"
    using assms by (simp add: fetch_molecule_json_def raise_for_status_def)
  then have "loop_body env row st = (Some e, st\<lparr>requests_made := Suc (requests_made st)\<rparr>)"
    by (cases st) (simp add: loop_body_def say_def Let_def)
  then show ?thesis by simp
qed

lemma loop_body_well:
  assumes "answers_well (requests_get env (requests_made st) (URL row))"
  shows "fst (loop_body env row st) = None"
proof (cases "requests_get env (requests_made st) (URL row)")
  case (Inl e)
  with assms show ?thesis
    by (simp add: answers_well_def loop_body_def fetch_molecule_json_def say_def Let_def)
next
  case (Inr response)
  show ?thesis
  proof (cases "400 \<le> status_code response \<and> status_code response < 600")
    case True
    with Inr show ?thesis
      by (simp add: loop_body_def fetch_molecule_json_def raise_for_status_def say_def Let_def)
  next
    case False
    show ?thesis
    proof (cases "json response")
      case (Inl e)
      with assms \<open>requests_get env (requests_made st) (URL row) = Inr response\<close> False
      have "is_RequestException e"
        by (simp add: answers_well_def)
      with Inl \<open>requests_get env (requests_made st) (URL row) = Inr response\<close> False
      show ?thesis
        by (simp add: loop_body_def fetch_molecule_json_def raise_for_status_def say_def Let_def)
    next
      case (Inr v)
      with \<open>requests_get env (requests_made st) (URL row) = Inr response\<close> False have fetch:
        "fetch_molecule_json env (requests_made st) (URL row) = ([], Inr v)"
        by (simp add: fetch_molecule_json_def raise_for_status_def)
      from assms \<open>requests_get env (requests_made st) (URL row) = Inr response\<close> False Inr
      have "well_shaped v"
        by (simp add: answers_well_def)
      with fetch show ?thesis
        by (cases v)
          (auto simp: loop_body_def say_def Let_def contains_dict
            simp del: contains.simps split: option.splits pyval.splits prod.splits)
    qed
  qed
qed

lemma for_rows_well:
  assumes "\<And>n url. answers_well (requests_get env n url)"
  shows "fst (for_rows env rows st) = None \<and>
    requests_made (snd (for_rows env rows st)) = requests_made st + length rows"
proof (induction rows arbitrary: st)
  case Nil
  then show ?case by simp
next
  case (Cons row rows)
  obtain r st1 where step: "loop_body env row st = (r, st1)"
    by (cases "loop_body env row st")
  have "answers_well (requests_get env (requests_made st) (URL row))"
    by (rule assms)
  from loop_body_well [OF this] step have "r = None" by simp
  with step Cons.IH [of st1] loop_body_requests [OF step] show ?case by simp
qed

lemma run_completes_when_answers_are_well_shaped:
  assumes "\<And>n url. answers_well (requests_get env n url)"
  shows "fst (main env uploaded_file) = None \<and>
    (\<forall>f data. uploaded_file = Some f \<and> read_csv f = Inr data \<longrightarrow>
       requests_made (snd (main env uploaded_file)) = length data)"
proof (cases uploaded_file)
  case None
  then show ?thesis by (simp add: main_def)
next
  case (Some f)
  show ?thesis
  proof (cases "read_csv f")
    case (Inl e)
    with Some show ?thesis by (simp add: main_def)
  next
    case (Inr data)
    obtain r st where run: "for_rows env data (say (st_write_uploaded data) start) = (r, st)"
      by (cases "for_rows env data (say (st_write_uploaded data) start)")
    with for_rows_well [OF assms, of data "say (st_write_uploaded data) start"]
    have "r = None" "requests_made st = length data"
      by (simp_all add: say_def start_def)
    with Some Inr run show ?thesis
      by (simp add: main_def display_def Let_def)
  qed
qed

lemmas world_simps = world_def table_row_def ethanol_def main_def read_csv_def start_def say_def
  loop_body_def fetch_molecule_json_def raise_for_status_def Let_def
  generate_fingerprint_def GetMorganFingerprintAsBitVect_def display_def

lemmas sample_simps = sample_table_def ethanol_bits_def world_simps

subsection \<open>Sample runs\<close>

lemma quiet_world_answers_well: "answers_well (requests_get quiet_world n url)"
  by (simp add: quiet_world_def world_def answers_well_def ethanol_def)

lemma quiet_world_run:
  "fst (main quiet_world (Some [table_row ''CHEMBL5'' ''http://x/biologic'',
      table_row ''CHEMBL1'' ''http://x/ok''])) = None \<and>
   requests_made (snd (main quiet_world (Some [table_row ''CHEMBL5'' ''http://x/biologic'',
      table_row ''CHEMBL1'' ''http://x/ok'']))) = 2"
  using run_completes_when_answers_are_well_shaped [of quiet_world, OF quiet_world_answers_well,
      of "Some [table_row ''CHEMBL5'' ''http://x/biologic'', table_row ''CHEMBL1'' ''http://x/ok'']"]
  by (simp add: read_csv_def table_row_def)

lemma no_smiles_sample:
  "loop_body world \<lparr>ChEMBL_ID = PyStr ''CHEMBL6'', URL = PyStr ''http://x/nosmiles'', Target = PyStr ''X''\<rparr> start =
     (None, \<lparr>page = [st_title, st_file_uploader, st_warning (NoSMILES (PyStr ''CHEMBL6''))],
             fingerprints = [], requests_made = 1\<rparr>)"
proof -
  let ?row = "\<lparr>ChEMBL_ID = PyStr ''CHEMBL6'', URL = PyStr ''http://x/nosmiles'', Target = PyStr ''X''\<rparr>"
  let ?kvs = "[(''molecule_structures'', PyDict [(''canonical_smiles'', PyNone)])]"
  have h1: "requests_get world (requests_made start) (URL ?row) =
      Inr \<lparr>status_code = 200, json = Inr (PyDict ?kvs)\<rparr>"
    by (simp add: world_def)
  from no_smiles_row_is_warned_and_skipped [OF h1, of ?kvs "[(''canonical_smiles'', PyNone)]"]
  show ?thesis by (simp add: start_def)
qed

lemma rejected_body_sample:
  "for_rows world
     [\<lparr>ChEMBL_ID = PyStr ''CHEMBL3'', URL = PyStr ''http://x/html'', Target = PyStr ''X''\<rparr>,
      \<lparr>ChEMBL_ID = PyStr ''CHEMBL1'', URL = PyStr ''http://x/ok'', Target = PyStr ''X''\<rparr>] start =
     (None,
      \<lparr>page = [st_title, st_file_uploader,
               st_error (FailedToFetch (PyStr ''http://x/html'') JSONDecodeError),
               st_warning (NoMoleculeData (PyStr ''CHEMBL3''))],
       fingerprints = [(PyStr ''CHEMBL1'', PyStr ''CCO'', Some ethanol_bits)],
       requests_made = 2\<rparr>)"
  by (simp add: sample_simps)

lemma nested_body_sample:
  "main world (Some [table_row ''CHEMBL9'' ''http://x/nested'', table_row ''CHEMBL1'' ''http://x/ok'']) =
     (Some RecursionError,
      \<lparr>page = [st_title, st_file_uploader,
         st_write_uploaded
           [\<lparr>ChEMBL_ID = PyStr ''CHEMBL9'', URL = PyStr ''http://x/nested'', Target = PyStr ''X''\<rparr>,
            \<lparr>ChEMBL_ID = PyStr ''CHEMBL1'', URL = PyStr ''http://x/ok'', Target = PyStr ''X''\<rparr>]],
       fingerprints = [], requests_made = 1\<rparr>)"
  by (simp add: world_simps)

lemma empty_file_sample:
  "main world (Some []) =
     (None, \<lparr>page = [st_title, st_file_uploader, st_write_uploaded []],
             fingerprints = [], requests_made = 0\<rparr>)"
  by (simp add: world_simps)

section \<open>The claims\<close>

text \<open>
  C1 (as the code has it). A pass of the loop appends at most one entry, and only when
  the fetch returned a truthy value that contains \<^verbatim>\<open>molecule_structures\<close> and the
  \<^verbatim>\<open>canonical_smiles\<close> read from it is truthy: the entry holds that SMILES. The entry
  is appended whatever the generator returns, and carries that result: when generation
  fails the generator writes one error message, the entry is appended with the
  fingerprint \<open>None\<close>, and only the result table leaves it out; when it succeeds nothing
  is written and the row joins the result table. Conversely, whenever a truthy SMILES is
  extracted from truthy fetched data, the pass ends without an exception and appends the
  entry with the generator's result.
\<close>

theorem C1_entry_appended_whatever_the_generator_returns:
  assumes "loop_body env row st = (r, st')"
  shows "(fingerprints st' = fingerprints st \<or>
    (\<exists>data structures smiles.
       fetch_molecule_json env (requests_made st) (URL row) = ([], Inr data) \<and>
       truthy data \<and>
       contains ''molecule_structures'' data = Inr True \<and>
       getitem data ''molecule_structures'' = Inr structures \<and>
       get_method structures ''canonical_smiles'' = Inr smiles \<and>
       truthy smiles \<and> r = None \<and>
       fingerprints st' =
         fingerprints st @ [(ChEMBL_ID row, smiles, snd (generate_fingerprint env smiles))] \<and>
       page st' = page st @ fst (generate_fingerprint env smiles) \<and>
       (case snd (generate_fingerprint env smiles) of
          None \<Rightarrow>
            (\<exists>m. fst (generate_fingerprint env smiles) = [st_error m]) \<and>
            fingerprint_df (fingerprints st') = fingerprint_df (fingerprints st)
        | Some bv \<Rightarrow>
            fst (generate_fingerprint env smiles) = [] \<and>
            fingerprint_df (fingerprints st') =
              fingerprint_df (fingerprints st) @ [(ChEMBL_ID row, smiles, list_of bv)]))) \<and>
    (\<forall>out data structures smiles.
       fetch_molecule_json env (requests_made st) (URL row) = (out, Inr data) \<and>
       truthy data \<and>
       contains ''molecule_structures'' data = Inr True \<and>
       getitem data ''molecule_structures'' = Inr structures \<and>
       get_method structures ''canonical_smiles'' = Inr smiles \<and>
       truthy smiles \<longrightarrow>
       r = None \<and>
       fingerprints st' =
         fingerprints st @ [(ChEMBL_ID row, smiles, snd (generate_fingerprint env smiles))])"
proof -
  have msgs: "case snd (generate_fingerprint env x) of
      None \<Rightarrow> \<exists>m. fst (generate_fingerprint env x) = [st_error m]
    | Some bv \<Rightarrow> fst (generate_fingerprint env x) = []" for x
    using generate_fingerprint_messages [of env x "fst (generate_fingerprint env x)"
        "snd (generate_fingerprint env x)"]
    by simp
  have only_when: "fingerprints st' = fingerprints st \<or>
    (\<exists>data structures smiles.
       fetch_molecule_json env (requests_made st) (URL row) = ([], Inr data) \<and>
       truthy data \<and>
       contains ''molecule_structures'' data = Inr True \<and>
       getitem data ''molecule_structures'' = Inr structures \<and>
       get_method structures ''canonical_smiles'' = Inr smiles \<and>
       truthy smiles \<and> r = None \<and>
       fingerprints st' =
         fingerprints st @ [(ChEMBL_ID row, smiles, snd (generate_fingerprint env smiles))] \<and>
       page st' = page st @ fst (generate_fingerprint env smiles) \<and>
       (case snd (generate_fingerprint env smiles) of
          None \<Rightarrow>
            (\<exists>m. fst (generate_fingerprint env smiles) = [st_error m]) \<and>
            fingerprint_df (fingerprints st') = fingerprint_df (fingerprints st)
        | Some bv \<Rightarrow>
            fst (generate_fingerprint env smiles) = [] \<and>
            fingerprint_df (fingerprints st') =
              fingerprint_df (fingerprints st) @ [(ChEMBL_ID row, smiles, list_of bv)]))"
    using loop_body_appends [OF assms]
  proof
    assume "fingerprints st' = fingerprints st"
    then show ?thesis by simp
  next
    assume "\<exists>data structures smiles.
       fetch_molecule_json env (requests_made st) (URL row) = ([], Inr data) \<and>
       truthy data \<and>
       contains ''molecule_structures'' data = Inr True \<and>
       getitem data ''molecule_structures'' = Inr structures \<and>
       get_method structures ''canonical_smiles'' = Inr smiles \<and>
       truthy smiles \<and> r = None \<and>
       fingerprints st' =
         fingerprints st @ [(ChEMBL_ID row, smiles, snd (generate_fingerprint env smiles))] \<and>
       page st' = page st @ fst (generate_fingerprint env smiles)"
    then obtain data structures smiles where *:
      "fetch_molecule_json env (requests_made st) (URL row) = ([], Inr data)"
      "truthy data"
      "contains ''molecule_structures'' data = Inr True"
      "getitem data ''molecule_structures'' = Inr structures"
      "get_method structures ''canonical_smiles'' = Inr smiles"
      "truthy smiles" "r = None"
      "fingerprints st' =
         fingerprints st @ [(ChEMBL_ID row, smiles, snd (generate_fingerprint env smiles))]"
      "page st' = page st @ fst (generate_fingerprint env smiles)"
      by blast
    have "case snd (generate_fingerprint env smiles) of
          None \<Rightarrow>
            (\<exists>m. fst (generate_fingerprint env smiles) = [st_error m]) \<and>
            fingerprint_df (fingerprints st') = fingerprint_df (fingerprints st)
        | Some bv \<Rightarrow>
            fst (generate_fingerprint env smiles) = [] \<and>
            fingerprint_df (fingerprints st') =
              fingerprint_df (fingerprints st) @ [(ChEMBL_ID row, smiles, list_of bv)]"
      using msgs [of smiles] *(8)
      by (auto simp: fingerprint_df_append split: option.splits)
    with * show ?thesis by blast
  qed
  have whenever: "r = None \<and>
       fingerprints st' =
         fingerprints st @ [(ChEMBL_ID row, smiles, snd (generate_fingerprint env smiles))]"
    if "fetch_molecule_json env (requests_made st) (URL row) = (out, Inr data) \<and>
       truthy data \<and>
       contains ''molecule_structures'' data = Inr True \<and>
       getitem data ''molecule_structures'' = Inr structures \<and>
       get_method structures ''canonical_smiles'' = Inr smiles \<and>
       truthy smiles" for out data structures smiles
    using loop_body_reaches_generator [OF assms, of out data structures smiles] that
    by blast
  from only_when whenever show ?thesis
    by blast
qed

theorem C1_witness:
  "loop_body world \<lparr>ChEMBL_ID = PyStr ''CHEMBL4'', URL = PyStr ''http://x/bad'', Target = PyStr ''X''\<rparr> start =
     (None, \<lparr>page = [st_title, st_file_uploader, st_error (InvalidSMILES (PyStr ''not_a_valid_smiles''))],
             fingerprints = [(PyStr ''CHEMBL4'', PyStr ''not_a_valid_smiles'', None)],
             requests_made = 1\<rparr>) \<and>
   fetch_molecule_json world 0 (PyStr ''http://x/bad'') =
     ([], Inr (PyDict [(''molecule_structures'',
        PyDict [(''canonical_smiles'', PyStr ''not_a_valid_smiles'')])])) \<and>
   contains ''molecule_structures'' (PyDict [(''molecule_structures'',
        PyDict [(''canonical_smiles'', PyStr ''not_a_valid_smiles'')])]) = Inr True \<and>
   getitem (PyDict [(''molecule_structures'',
        PyDict [(''canonical_smiles'', PyStr ''not_a_valid_smiles'')])]) ''molecule_structures'' =
     Inr (PyDict [(''canonical_smiles'', PyStr ''not_a_valid_smiles'')]) \<and>
   get_method (PyDict [(''canonical_smiles'', PyStr ''not_a_valid_smiles'')]) ''canonical_smiles'' =
     Inr (PyStr ''not_a_valid_smiles'') \<and>
   truthy (PyStr ''not_a_valid_smiles'') \<and>
   snd (generate_fingerprint world (PyStr ''not_a_valid_smiles'')) = None \<and>
   fst (generate_fingerprint world (PyStr ''not_a_valid_smiles'')) =
     [st_error (InvalidSMILES (PyStr ''not_a_valid_smiles''))] \<and>
   fingerprint_df [(PyStr ''CHEMBL4'', PyStr ''not_a_valid_smiles'', None)] = fingerprint_df (fingerprints start)"
proof -
  let ?row = "\<lparr>ChEMBL_ID = PyStr ''CHEMBL4'', URL = PyStr ''http://x/bad'', Target = PyStr ''X''\<rparr>"
  let ?st = "\<lparr>page = [st_title, st_file_uploader, st_error (InvalidSMILES (PyStr ''not_a_valid_smiles''))],
             fingerprints = [(PyStr ''CHEMBL4'', PyStr ''not_a_valid_smiles'', None)],
             requests_made = 1\<rparr>"
  have h: "loop_body world ?row start = (None, ?st)"
    by (simp add: world_simps)
  have f: "fetch_molecule_json world 0 (PyStr ''http://x/bad'') =
     ([], Inr (PyDict [(''molecule_structures'',
        PyDict [(''canonical_smiles'', PyStr ''not_a_valid_smiles'')])]))"
    by (simp add: world_simps)
  have g: "generate_fingerprint world (PyStr ''not_a_valid_smiles'') =
      ([st_error (InvalidSMILES (PyStr ''not_a_valid_smiles''))], None)"
    by (simp add: world_simps)
  from C1_entry_appended_whatever_the_generator_returns [OF h] f g h
  show ?thesis
    by (auto simp: start_def)
qed

text \<open>
  The claim as the specification states it fails for a SMILES the parser rejects: the
  entry is in the accumulated list, and no warning is written.
\<close>

theorem C1_counterexample:
  "snd (generate_fingerprint world (PyStr ''not_a_valid_smiles'')) = None \<and>
   fingerprints (snd (main world (Some [table_row ''CHEMBL4'' ''http://x/bad'']))) =
     [(PyStr ''CHEMBL4'', PyStr ''not_a_valid_smiles'', None)] \<and>
   warnings (page (snd (main world (Some [table_row ''CHEMBL4'' ''http://x/bad''])))) = []"
  by (simp add: world_simps)

text \<open>
  C2 (as the code has it). When the request raises a \<^verbatim>\<open>RequestException\<close> (a connection
  error, a timeout) or the response has an error status (400 to 599), the pass writes
  exactly two messages, an error that names the URL and the exception and a warning that
  names the identifier, appends nothing and goes on.
\<close>

theorem C2_failed_fetch_two_messages:
  assumes "requests_get env (requests_made st) (URL row) = Inl e \<and> is_RequestException e \<or>
    (\<exists>response. requests_get env (requests_made st) (URL row) = Inr response \<and>
       400 \<le> status_code response \<and> status_code response < 600 \<and>
       e = HTTPError (status_code response))"
  shows "loop_body env row st =
      (None, st\<lparr>page := page st @ [st_error (FailedToFetch (URL row) e),
                                    st_warning (NoMoleculeData (ChEMBL_ID row))],
                requests_made := Suc (requests_made st)\<rparr>) \<and>
    fingerprints (snd (loop_body env row st)) = fingerprints st \<and>
    contribution env (requests_made st) row = []"
proof -
  have fetch: "fetch_molecule_json env n (URL row) = ([st_error (FailedToFetch (URL row) e)], Inr PyNone)"
    if "requests_get env n (URL row) = Inl e \<and> is_RequestException e \<or>
    (\<exists>response. requests_get env n (URL row) = Inr response \<and>
       400 \<le> status_code response \<and> status_code response < 600 \<and>
       e = HTTPError (status_code response))" for n
    using that by (auto simp: fetch_molecule_json_def raise_for_status_def)
  have body: "loop_body env row s =
      (None, s\<lparr>page := page s @ [st_error (FailedToFetch (URL row) e),
                                    st_warning (NoMoleculeData (ChEMBL_ID row))],
                requests_made := Suc (requests_made s)\<rparr>)"
    if "fetch_molecule_json env (requests_made s) (URL row) = ([st_error (FailedToFetch (URL row) e)], Inr PyNone)" for s
    using that by (cases s) (simp add: loop_body_def say_def Let_def)
  have 1: "loop_body env row st =
      (None, st\<lparr>page := page st @ [st_error (FailedToFetch (URL row) e),
                                    st_warning (NoMoleculeData (ChEMBL_ID row))],
                requests_made := Suc (requests_made st)\<rparr>)"
    using body [OF fetch [OF assms]] .
  have 2: "contribution env (requests_made st) row = []"
    using body [of "blank (requests_made st)"] fetch [OF assms]
    by (simp add: contribution_def blank_def)
  from 1 2 show ?thesis by simp
qed

theorem C2_witness:
  "requests_get world 0 (PyStr ''http://x/404'') = Inr \<lparr>status_code = 404, json = Inl JSONDecodeError\<rparr> \<and>
   loop_body world \<lparr>ChEMBL_ID = PyStr ''CHEMBL2'', URL = PyStr ''http://x/404'', Target = PyStr ''X''\<rparr> start =
     (None, \<lparr>page = [st_title, st_file_uploader,
                     st_error (FailedToFetch (PyStr ''http://x/404'') (HTTPError 404)),
                     st_warning (NoMoleculeData (PyStr ''CHEMBL2''))],
             fingerprints = [], requests_made = 1\<rparr>) \<and>
   contribution world 0 \<lparr>ChEMBL_ID = PyStr ''CHEMBL2'', URL = PyStr ''http://x/404'', Target = PyStr ''X''\<rparr> = []"
proof -
  let ?row = "\<lparr>ChEMBL_ID = PyStr ''CHEMBL2'', URL = PyStr ''http://x/404'', Target = PyStr ''X''\<rparr>"
  have h: "requests_get world (requests_made start) (URL ?row) = Inr \<lparr>status_code = 404, json = Inl JSONDecodeError\<rparr>"
    by (simp add: world_def)
  then have "requests_get world (requests_made start) (URL ?row) = Inl (HTTPError 404) \<and>
      is_RequestException (HTTPError 404) \<or>
    (\<exists>response. requests_get world (requests_made start) (URL ?row) = Inr response \<and>
       400 \<le> status_code response \<and> status_code response < 600 \<and>
       HTTPError 404 = HTTPError (status_code response))"
    by simp
  from C2_failed_fetch_two_messages [OF this] h show ?thesis
    by (simp add: start_def)
qed

text \<open>
  The claim as the specification states it fails for a 404: two messages are written,
  and neither names both the identifier and the URL. A status outside 200 to 299 is not
  always a failure either: a response with status 300 and a JSON body is used.
\<close>

theorem C2_counterexample:
  "errors (page (snd (main world (Some [table_row ''CHEMBL2'' ''http://x/404''])))) =
     [FailedToFetch (PyStr ''http://x/404'') (HTTPError 404)] \<and>
   warnings (page (snd (main world (Some [table_row ''CHEMBL2'' ''http://x/404''])))) =
     [NoMoleculeData (PyStr ''CHEMBL2'')] \<and>
   PyStr ''http://x/404'' \<notin> set (mentions (NoMoleculeData (PyStr ''CHEMBL2''))) \<and>
   PyStr ''CHEMBL2'' \<notin> set (mentions (FailedToFetch (PyStr ''http://x/404'') (HTTPError 404))) \<and>
   fingerprints (snd (main world (Some [table_row ''CHEMBL7'' ''http://x/300'']))) =
     [(PyStr ''CHEMBL7'', PyStr ''CCO'', Some (fold_bits 2048 [80, 222, 807, 1057, 2245]))]"
  by (simp add: world_simps)

text \<open>
  C3 (as the code has it). When \<^verbatim>\<open>read_csv\<close> raises, the run ends before any row is
  processed: one error message, no request, nothing accumulated. A wrong number of
  columns alone does not make it raise: a table with at least one line whose lines have
  at most three fields is read, each line a row with the missing cells NaN, and the loop
  starts on it, so that at least the first row's request is made.
\<close>

theorem C3_read_failure_aborts:
  "(read_csv f = Inl e \<longrightarrow>
      main env (Some f) =
        (None, \<lparr>page = [st_title, st_file_uploader, st_error (ErrorReading e)],
                fingerprints = [], requests_made = 0\<rparr>)) \<and>
   (f \<noteq> [] \<and> list_all (\<lambda>l. length l \<le> 3) f \<longrightarrow>
      read_csv f = Inr (map (\<lambda>l. named (l @ replicate (3 - length l) PyNaN)) f) \<and>
      0 < requests_made (snd (main env (Some f))))"
proof -
  have fatal: "main env (Some f) =
        (None, \<lparr>page = [st_title, st_file_uploader, st_error (ErrorReading e)],
                fingerprints = [], requests_made = 0\<rparr>)" if "read_csv f = Inl e"
    using that by (simp add: main_def start_def say_def)
  have short: "read_csv f = Inr (map (\<lambda>l. named (l @ replicate (3 - length l) PyNaN)) f) \<and>
      0 < requests_made (snd (main env (Some f)))"
    if "f \<noteq> []" "list_all (\<lambda>l. length l \<le> 3) f"
  proof -
    let ?pad = "\<lambda>l. named (l @ replicate (3 - length l) PyNaN)"
    from that obtain first rest where f: "f = first # rest"
      by (cases f) auto
    with that have "max (length first) 3 = 3"
      and "\<not> list_ex (\<lambda>l. 3 < length l) rest"
      by (auto simp: list_all_iff list_ex_iff)
    with f have read: "read_csv f = Inr (map ?pad f)"
      by (simp add: read_csv_def Let_def)
    obtain r st where
      run: "for_rows env (?pad first # map ?pad rest) (say (st_write_uploaded (map ?pad f)) start) = (r, st)"
      by (cases "for_rows env (?pad first # map ?pad rest) (say (st_write_uploaded (map ?pad f)) start)")
    from for_rows_first_request [OF run]
    have "0 < requests_made st"
      by simp
    moreover have "requests_made (snd (main env (Some f))) = requests_made st"
      using read run f by (cases r) (simp_all add: main_def display_def Let_def)
    ultimately have "0 < requests_made (snd (main env (Some f)))"
      by simp
    with read show ?thesis by simp
  qed
  from fatal short show ?thesis by blast
qed

theorem C3_witness:
  "read_csv [table_row ''CHEMBL1'' ''http://x/ok'',
             [PyStr ''CHEMBL2'', PyStr ''http://x/404'', PyStr ''X'', PyStr ''Y'']] = Inl ParserError \<and>
   main world (Some [table_row ''CHEMBL1'' ''http://x/ok'',
             [PyStr ''CHEMBL2'', PyStr ''http://x/404'', PyStr ''X'', PyStr ''Y'']]) =
     (None, \<lparr>page = [st_title, st_file_uploader, st_error (ErrorReading ParserError)],
             fingerprints = [], requests_made = 0\<rparr>) \<and>
   list_all (\<lambda>l. length l \<le> 3) [[PyStr ''CHEMBL1'', PyStr ''http://x/ok'']] \<and>
   read_csv [[PyStr ''CHEMBL1'', PyStr ''http://x/ok'']] =
     Inr [\<lparr>ChEMBL_ID = PyStr ''CHEMBL1'', URL = PyStr ''http://x/ok'', Target = PyNaN\<rparr>] \<and>
   0 < requests_made (snd (main world (Some [[PyStr ''CHEMBL1'', PyStr ''http://x/ok'']])))"
proof -
  let ?wide = "[table_row ''CHEMBL1'' ''http://x/ok'',
             [PyStr ''CHEMBL2'', PyStr ''http://x/404'', PyStr ''X'', PyStr ''Y'']]"
  have h: "read_csv ?wide = Inl ParserError"
    by (simp add: read_csv_def table_row_def)
  have k: "[[PyStr ''CHEMBL1'', PyStr ''http://x/ok'']] \<noteq> [] \<and>
      list_all (\<lambda>l. length l \<le> 3) [[PyStr ''CHEMBL1'', PyStr ''http://x/ok'']]"
    by simp
  from C3_read_failure_aborts [of ?wide ParserError world] h
    C3_read_failure_aborts [of "[[PyStr ''CHEMBL1'', PyStr ''http://x/ok'']]" ParserError world] k
  show ?thesis by (simp add: numeral_3_eq_3)
qed

text \<open>
  The claim as the specification states it fails for a table of two columns: the row is
  read with a missing target, the request is made and the fingerprint is computed.
\<close>

theorem C3_counterexample:
  "read_csv [[PyStr ''CHEMBL1'', PyStr ''http://x/ok'']] =
     Inr [\<lparr>ChEMBL_ID = PyStr ''CHEMBL1'', URL = PyStr ''http://x/ok'', Target = PyNaN\<rparr>] \<and>
   fst (main world (Some [[PyStr ''CHEMBL1'', PyStr ''http://x/ok'']])) = None \<and>
   requests_made (snd (main world (Some [[PyStr ''CHEMBL1'', PyStr ''http://x/ok'']]))) = 1 \<and>
   fingerprints (snd (main world (Some [[PyStr ''CHEMBL1'', PyStr ''http://x/ok'']]))) =
     [(PyStr ''CHEMBL1'', PyStr ''CCO'', Some (fold_bits 2048 [80, 222, 807, 1057, 2245]))]"
  by (simp add: world_simps)

text \<open>
  C4, at a failing input. The body of the first row's response is \<^verbatim>\<open>NaN\<close>, which is
  not JSON; the parser accepts it as a float, the fetcher signals nothing, the test
  \<^verbatim>\<open>"molecule_structures" in molecule_data\<close> raises on the float, and the run ends
  there: the second row is never requested.
\<close>

theorem C4_failing_input:
  "requests_get world 0 (PyStr ''http://x/nan'') = Inr \<lparr>status_code = 200, json = Inr PyNaN\<rparr> \<and>
   fetch_molecule_json world 0 (PyStr ''http://x/nan'') = ([], Inr PyNaN) \<and>
   main world (Some [table_row ''CHEMBL8'' ''http://x/nan'', table_row ''CHEMBL1'' ''http://x/ok'']) =
     (Some TypeError,
      \<lparr>page = [st_title, st_file_uploader,
         st_write_uploaded
           [\<lparr>ChEMBL_ID = PyStr ''CHEMBL8'', URL = PyStr ''http://x/nan'', Target = PyStr ''X''\<rparr>,
            \<lparr>ChEMBL_ID = PyStr ''CHEMBL1'', URL = PyStr ''http://x/ok'', Target = PyStr ''X''\<rparr>]],
       fingerprints = [], requests_made = 1\<rparr>)"
  by (simp add: world_simps)

text \<open>
  C5. Whenever \<open>generate_fingerprint\<close> succeeds, the bit vector it returns has exactly
  2048 bits; so has the fingerprint of every entry of the accumulated list that carries
  one, and so has the bit list of every row of the result table.
\<close>

theorem C5_fingerprint_length:
  "(snd (generate_fingerprint env smiles) = Some bv \<longrightarrow> length bv = 2048) \<and>
   ((cid, s, Some fp) \<in> set (fingerprints (snd (main env uploaded_file))) \<longrightarrow> length fp = 2048) \<and>
   ((cid', s', bits) \<in> set (fingerprint_df (fingerprints (snd (main env uploaded_file)))) \<longrightarrow>
      length bits = 2048)"
proof -
  have gen: "length b = 2048" if "snd (generate_fingerprint env x) = Some b" for x b
    using that generate_fingerprint_length [of env x "fst (generate_fingerprint env x)" b]
    by (cases "generate_fingerprint env x") simp
  have acc: "length b = 2048"
    if "(c, x, Some b) \<in> set (fingerprints (snd (main env uploaded_file)))" for c x b
  proof -
    from that main_accumulated [of env uploaded_file]
    have "Some b = snd (generate_fingerprint env x)"
      by (auto simp: list_all_iff)
    then show ?thesis using gen [of x b] by simp
  qed
  have df: "length bits = 2048"
    if "(c, x, bits) \<in> set (fingerprint_df (fingerprints (snd (main env uploaded_file))))"
    for c x
    using fingerprint_df_mem [OF that] acc by (auto simp: list_of_def)
  show ?thesis
    using gen acc df by blast
qed

theorem C5_fingerprint_length_witness:
  "snd (generate_fingerprint world (PyStr ''CCO'')) = Some (fold_bits 2048 [80, 222, 807, 1057, 2245]) \<and>
   length (fold_bits 2048 [80, 222, 807, 1057, 2245]) = 2048 \<and>
   (PyStr ''CHEMBL1'', PyStr ''CCO'', Some (fold_bits 2048 [80, 222, 807, 1057, 2245]))
     \<in> set (fingerprints (snd (main world (Some [table_row ''CHEMBL1'' ''http://x/ok''])))) \<and>
   (PyStr ''CHEMBL1'', PyStr ''CCO'', list_of (fold_bits 2048 [80, 222, 807, 1057, 2245]))
     \<in> set (fingerprint_df (fingerprints (snd (main world (Some [table_row ''CHEMBL1'' ''http://x/ok'']))))) \<and>
   length (list_of (fold_bits 2048 [80, 222, 807, 1057, 2245])) = 2048"
proof -
  have h1: "snd (generate_fingerprint world (PyStr ''CCO'')) = Some (fold_bits 2048 [80, 222, 807, 1057, 2245])"
    by (simp add: world_simps)
  have h2: "(PyStr ''CHEMBL1'', PyStr ''CCO'', Some (fold_bits 2048 [80, 222, 807, 1057, 2245]))
     \<in> set (fingerprints (snd (main world (Some [table_row ''CHEMBL1'' ''http://x/ok'']))))"
    by (simp add: world_simps)
  have h3: "(PyStr ''CHEMBL1'', PyStr ''CCO'', list_of (fold_bits 2048 [80, 222, 807, 1057, 2245]))
     \<in> set (fingerprint_df (fingerprints (snd (main world (Some [table_row ''CHEMBL1'' ''http://x/ok''])))))"
    by (simp add: world_simps)
  show ?thesis
    using h1 h2 h3
      C5_fingerprint_length [of world "PyStr ''CCO''" "fold_bits 2048 [80, 222, 807, 1057, 2245]"
        "PyStr ''CHEMBL1''" "PyStr ''CCO''" "fold_bits 2048 [80, 222, 807, 1057, 2245]"
        "Some [table_row ''CHEMBL1'' ''http://x/ok'']"
        "PyStr ''CHEMBL1''" "PyStr ''CCO''" "list_of (fold_bits 2048 [80, 222, 807, 1057, 2245])"]
    by simp
qed

text \<open>
  C6. When a result table is shown or offered for download, it is the table of the
  accumulated list, which is the concatenation, in the order of the input rows, of what
  each row contributes; so the table is the in-order concatenation of the rows'
  contributions to it, and the identifiers of the table are a subsequence of those of
  the accumulated list, which are a subsequence of those of the input.
\<close>

theorem C6_order_of_rows_kept:
  assumes "read_csv f = Inr data"
    and "st_write_df df \<in> set (page (snd (main env (Some f)))) \<or>
      st_download_button df \<in> set (page (snd (main env (Some f))))"
  shows "fingerprints (snd (main env (Some f))) =
      concat (map (\<lambda>(n, row). contribution env n row) (List.enumerate 0 data)) \<and>
    df = fingerprint_df (fingerprints (snd (main env (Some f)))) \<and>
    df = concat (map (\<lambda>(n, row). fingerprint_df (contribution env n row)) (List.enumerate 0 data)) \<and>
    subseq (map fst df) (map fst (fingerprints (snd (main env (Some f))))) \<and>
    subseq (map fst (fingerprints (snd (main env (Some f))))) (map ChEMBL_ID data)"
proof -
  let ?acc = "fingerprints (snd (main env (Some f)))"
  from main_displayed [OF assms(2)] assms(1) obtain st where
    st: "for_rows env data (say (st_write_uploaded data) start) = (None, st)"
      "main env (Some f) = (None, display st)" "df = fingerprint_df (fingerprints st)"
    by auto
  have acc: "?acc = concat (map (\<lambda>(n, row). contribution env n row) (List.enumerate 0 data))"
    using for_rows_fingerprints [OF st(1)] st(2)
    by (simp add: fingerprints_display say_def start_def)
  have df: "df = fingerprint_df ?acc"
    using st by (simp add: fingerprints_display)
  have df2: "df = concat (map (\<lambda>(n, row). fingerprint_df (contribution env n row)) (List.enumerate 0 data))"
    unfolding df acc fingerprint_df_concat
    by (simp add: comp_def case_prod_unfold)
  have "subseq (map fst (fingerprint_df fps)) (map fst fps)" for fps :: "(pyval \<times> pyval \<times> bool list option) list"
    by (induction fps rule: fingerprint_df.induct) (auto split: option.splits)
  then have s1: "subseq (map fst df) (map fst ?acc)"
    using df by simp
  have "subseq (map fst (concat (map (\<lambda>(n, row). contribution env n row) (List.enumerate 0 data))))
      (map (\<lambda>(n, row). ChEMBL_ID row) (List.enumerate 0 data))"
  proof (rule subseq_concat_map)
    fix p assume "p \<in> set (List.enumerate 0 data)"
    obtain n row where p: "p = (n, row)" by (cases p)
    from contribution_cases [of env n row] p
    show "(case p of (n, row) \<Rightarrow> contribution env n row) = [] \<or>
      (\<exists>x. (case p of (n, row) \<Rightarrow> contribution env n row) = [x] \<and>
           fst x = (case p of (n, row) \<Rightarrow> ChEMBL_ID row))"
      by auto
  qed
  moreover have "map (\<lambda>(n, row). ChEMBL_ID row) (List.enumerate 0 data) = map ChEMBL_ID data"
    by (simp add: enumerate_eq_zip case_prod_unfold flip: map_map [unfolded comp_def])
  ultimately have s2: "subseq (map fst ?acc) (map ChEMBL_ID data)"
    using acc by simp
  from acc df df2 s1 s2 show ?thesis by blast
qed

theorem C6_witness:
  "read_csv sample_table = Inr (map named sample_table) \<and>
   st_write_df [(PyStr ''CHEMBL1'', PyStr ''CCO'', list_of ethanol_bits),
                (PyStr ''CHEMBL7'', PyStr ''CCO'', list_of ethanol_bits)]
     \<in> set (page (snd (main world (Some sample_table)))) \<and>
   map fst (fingerprints (snd (main world (Some sample_table)))) =
     [PyStr ''CHEMBL4'', PyStr ''CHEMBL1'', PyStr ''CHEMBL7''] \<and>
   map ChEMBL_ID (map named sample_table) =
     [PyStr ''CHEMBL4'', PyStr ''CHEMBL1'', PyStr ''CHEMBL2'', PyStr ''CHEMBL7''] \<and>
   subseq [PyStr ''CHEMBL1'', PyStr ''CHEMBL7'']
     (map fst (fingerprints (snd (main world (Some sample_table))))) \<and>
   subseq (map fst (fingerprints (snd (main world (Some sample_table)))))
     (map ChEMBL_ID (map named sample_table))"
proof -
  have h1: "read_csv sample_table = Inr (map named sample_table)"
    by (simp add: sample_simps)
  have h2: "st_write_df [(PyStr ''CHEMBL1'', PyStr ''CCO'', list_of ethanol_bits),
                (PyStr ''CHEMBL7'', PyStr ''CCO'', list_of ethanol_bits)]
     \<in> set (page (snd (main world (Some sample_table))))"
    by (simp add: sample_simps)
  have acc: "map fst (fingerprints (snd (main world (Some sample_table)))) =
     [PyStr ''CHEMBL4'', PyStr ''CHEMBL1'', PyStr ''CHEMBL7'']"
    by (simp add: sample_simps)
  have ids: "map ChEMBL_ID (map named sample_table) =
     [PyStr ''CHEMBL4'', PyStr ''CHEMBL1'', PyStr ''CHEMBL2'', PyStr ''CHEMBL7'']"
    by (simp add: sample_simps)
  from C6_order_of_rows_kept [OF h1 disjI1 [OF h2]]
  have "subseq (map fst [(PyStr ''CHEMBL1'', PyStr ''CCO'', list_of ethanol_bits),
                (PyStr ''CHEMBL7'', PyStr ''CCO'', list_of ethanol_bits)])
          (map fst (fingerprints (snd (main world (Some sample_table)))))"
    and "subseq (map fst (fingerprints (snd (main world (Some sample_table)))))
          (map ChEMBL_ID (map named sample_table))"
    by blast+
  with h1 h2 acc ids show ?thesis by simp
qed

text \<open>
  C7, at a failing input. The first row's response carries
  \<^verbatim>\<open>"molecule_structures": null\<close>; the call of \<^verbatim>\<open>.get\<close> on it raises, nothing catches
  the exception, and the run ends there: the second row is never requested and no result
  is shown.
\<close>

theorem C7_failing_input:
  "main world (Some [table_row ''CHEMBL5'' ''http://x/biologic'', table_row ''CHEMBL1'' ''http://x/ok'']) =
     (Some AttributeError,
      \<lparr>page = [st_title, st_file_uploader,
         st_write_uploaded
           [\<lparr>ChEMBL_ID = PyStr ''CHEMBL5'', URL = PyStr ''http://x/biologic'', Target = PyStr ''X''\<rparr>,
            \<lparr>ChEMBL_ID = PyStr ''CHEMBL1'', URL = PyStr ''http://x/ok'', Target = PyStr ''X''\<rparr>]],
       fingerprints = [], requests_made = 1\<rparr>)"
  by (simp add: world_simps)

text \<open>
  C8, at a failing input. The fetched JSON contains \<^verbatim>\<open>molecule_structures\<close> and no
  SMILES; the pass of the loop ends with the exception and writes no warning.
\<close>

theorem C8_failing_input:
  "requests_get world 0 (PyStr ''http://x/biologic'') =
     Inr \<lparr>status_code = 200, json = Inr (PyDict [(''molecule_structures'', PyNone)])\<rparr> \<and>
   contains ''molecule_structures'' (PyDict [(''molecule_structures'', PyNone)]) = Inr True \<and>
   loop_body world
     \<lparr>ChEMBL_ID = PyStr ''CHEMBL5'', URL = PyStr ''http://x/biologic'', Target = PyStr ''X''\<rparr> start =
     (Some AttributeError,
      \<lparr>page = [st_title, st_file_uploader], fingerprints = [], requests_made = 1\<rparr>) \<and>
   warnings (page (snd (loop_body world
     \<lparr>ChEMBL_ID = PyStr ''CHEMBL5'', URL = PyStr ''http://x/biologic'', Target = PyStr ''X''\<rparr> start))) = []"
  by (simp add: world_simps)

text \<open>
  C10. A table that is shown or offered for download is the table of the accumulated
  list: it has one row for each entry whose fingerprint is not \<open>None\<close>, and every row
  carries the bits of a fingerprint that the generator returned for the row's SMILES.
\<close>

theorem C10_result_table_has_no_failed_fingerprint:
  assumes "st_write_df df \<in> set (page (snd (main env uploaded_file))) \<or>
    st_download_button df \<in> set (page (snd (main env uploaded_file)))"
  shows "df = fingerprint_df (fingerprints (snd (main env uploaded_file))) \<and>
    length df = length (filter (\<lambda>(cid, s, fp). fp \<noteq> None) (fingerprints (snd (main env uploaded_file)))) \<and>
    (\<forall>(cid, s, bits) \<in> set df. \<exists>bv.
       (cid, s, Some bv) \<in> set (fingerprints (snd (main env uploaded_file))) \<and>
       snd (generate_fingerprint env s) = Some bv \<and> bits = list_of bv)"
proof -
  from main_displayed [OF assms] obtain st where
    st: "main env uploaded_file = (None, display st)" "df = fingerprint_df (fingerprints st)"
    by blast
  then have df: "df = fingerprint_df (fingerprints (snd (main env uploaded_file)))"
    by (simp add: fingerprints_display)
  have "\<exists>bv. (cid, s, Some bv) \<in> set (fingerprints (snd (main env uploaded_file))) \<and>
       snd (generate_fingerprint env s) = Some bv \<and> bits = list_of bv"
    if "(cid, s, bits) \<in> set df" for cid s bits
  proof -
    from that df fingerprint_df_mem obtain bv where
      bv: "(cid, s, Some bv) \<in> set (fingerprints (snd (main env uploaded_file)))" "bits = list_of bv"
      by blast
    with main_accumulated [of env uploaded_file] have "snd (generate_fingerprint env s) = Some bv"
      by (auto simp: list_all_iff)
    with bv show ?thesis by blast
  qed
  with df show ?thesis
    by (auto simp: length_fingerprint_df)
qed

theorem C10_witness:
  "st_write_df [(PyStr ''CHEMBL1'', PyStr ''CCO'', list_of ethanol_bits),
                (PyStr ''CHEMBL7'', PyStr ''CCO'', list_of ethanol_bits)]
     \<in> set (page (snd (main world (Some sample_table)))) \<and>
   fingerprints (snd (main world (Some sample_table))) =
     [(PyStr ''CHEMBL4'', PyStr ''not_a_valid_smiles'', None),
      (PyStr ''CHEMBL1'', PyStr ''CCO'', Some ethanol_bits),
      (PyStr ''CHEMBL7'', PyStr ''CCO'', Some ethanol_bits)] \<and>
   [(PyStr ''CHEMBL1'', PyStr ''CCO'', list_of ethanol_bits),
    (PyStr ''CHEMBL7'', PyStr ''CCO'', list_of ethanol_bits)] =
     fingerprint_df (fingerprints (snd (main world (Some sample_table))))"
proof -
  have h: "st_write_df [(PyStr ''CHEMBL1'', PyStr ''CCO'', list_of ethanol_bits),
                (PyStr ''CHEMBL7'', PyStr ''CCO'', list_of ethanol_bits)]
     \<in> set (page (snd (main world (Some sample_table))))"
    by (simp add: sample_simps)
  have acc: "fingerprints (snd (main world (Some sample_table))) =
     [(PyStr ''CHEMBL4'', PyStr ''not_a_valid_smiles'', None),
      (PyStr ''CHEMBL1'', PyStr ''CCO'', Some ethanol_bits),
      (PyStr ''CHEMBL7'', PyStr ''CCO'', Some ethanol_bits)]"
    by (simp add: sample_simps)
  from C10_result_table_has_no_failed_fingerprint [OF disjI1 [OF h]] h acc
  show ?thesis by simp
qed

end
